theory Spec2Isabelle
  imports Complex_Main "HOL-Library.Char_ord" "HOL-Library.List_Lexorder"
    "HOL-Library.Product_Lexorder"
begin

section \<open>Claims dashboard: the data pipeline of dashboard.py\<close>

text \<open>
  The script reads one table, validates its header, coerces nine amount columns and the
  remittance date, derives four totals per row, filters by year and payer, builds two
  grouped tables and exports them. The model follows the script line by line. The
  charts (lines 92 to 206) are drawn from the filtered rows when there are any; they
  change no table and are left out.

  Amounts are IEEE doubles in pandas. They are modelled as exact rationals: sums,
  differences and the rounding to two decimals are the mathematical ones, and the
  infinities and NaN that a double can hold after coercion are outside the model.
\<close>

subsection \<open>Rounding: \<open>round(series, 2)\<close>\<close>

text \<open>
  \<open>round\<close> on a Series is numpy's \<open>around\<close>: scale by 100, round to the nearest
  integer with ties going to the even one, scale back.
\<close>

definition rint :: "rat \<Rightarrow> int" where
  "rint x =
     (let f = \<lfloor>x\<rfloor>; d = x - of_int f
      in if d < 1 / 2 then f
         else if 1 / 2 < d then f + 1
         else if even f then f else f + 1)"

definition round2 :: "rat \<Rightarrow> rat" where
  "round2 x = of_int (rint (x * 100)) / 100"


subsection \<open>Timestamps and the columns taken from them\<close>

datatype month = Jan | Feb | Mar | Apr | May | Jun | Jul | Aug | Sep | Oct | Nov | Dec

record timestamp =
  ts_year :: int
  ts_month :: month
  ts_day :: nat

text \<open>\<open>strftime('%b')\<close>: the abbreviated month name.\<close>

fun strftime_b :: "month \<Rightarrow> string" where
  "strftime_b Jan = ''Jan''"
| "strftime_b Feb = ''Feb''"
| "strftime_b Mar = ''Mar''"
| "strftime_b Apr = ''Apr''"
| "strftime_b May = ''May''"
| "strftime_b Jun = ''Jun''"
| "strftime_b Jul = ''Jul''"
| "strftime_b Aug = ''Aug''"
| "strftime_b Sep = ''Sep''"
| "strftime_b Oct = ''Oct''"
| "strftime_b Nov = ''Nov''"
| "strftime_b Dec = ''Dec''"

fun month_number :: "month \<Rightarrow> nat" where
  "month_number Jan = 1"
| "month_number Feb = 2"
| "month_number Mar = 3"
| "month_number Apr = 4"
| "month_number May = 5"
| "month_number Jun = 6"
| "month_number Jul = 7"
| "month_number Aug = 8"
| "month_number Sep = 9"
| "month_number Oct = 10"
| "month_number Nov = 11"
| "month_number Dec = 12"

text \<open>\<open>dt.quarter\<close>.\<close>

definition quarter_of :: "month \<Rightarrow> nat" where
  "quarter_of m = (month_number m - 1) div 3 + 1"

subsection \<open>A cleaned row\<close>

text \<open>
  A cell of the uploaded table is blank (pandas: NaN) or holds a text. A cleaned row
  keeps its index label in the uploaded table, the parsed date, the payer cell as it
  was read, and the nine coerced amounts.
\<close>

datatype cell = Blank | Text string

record claim =
  row_label :: nat
  Remittance_Date :: timestamp
  Payer_Name :: cell
  Paid_Amount :: rat
  Resubmission_Paid_Amount_1 :: rat
  Resubmission_Paid_Amount2 :: rat
  Submitted_Amount :: rat
  Resubmitted_Amount_1 :: rat
  Resubmitted_Amount2 :: rat
  Denied_Amount :: rat
  Resubmission_Denied_Amount_Remittance_1 :: rat
  Resubmission_Denied_Amount_Remittance_2 :: rat

definition Remittance_Year :: "claim \<Rightarrow> int" where
  "Remittance_Year r = ts_year (Remittance_Date r)"

definition Remittance_Month :: "claim \<Rightarrow> string" where
  "Remittance_Month r = strftime_b (ts_month (Remittance_Date r))"

definition Quarter :: "claim \<Rightarrow> nat" where
  "Quarter r = quarter_of (ts_month (Remittance_Date r))"

subsection \<open>The four derived totals (lines 47 to 50)\<close>

definition Total_Submitted_Amount :: "claim \<Rightarrow> rat" where
  "Total_Submitted_Amount r =
     round2 (Submitted_Amount r + Resubmitted_Amount_1 r + Resubmitted_Amount2 r)"

definition Total_Paid_Amount :: "claim \<Rightarrow> rat" where
  "Total_Paid_Amount r =
     round2 (Paid_Amount r + Resubmission_Paid_Amount_1 r + Resubmission_Paid_Amount2 r)"

definition Total_Denied_Amount :: "claim \<Rightarrow> rat" where
  "Total_Denied_Amount r =
     round2 ((Denied_Amount r - Resubmitted_Amount_1 r)
       + (Resubmission_Denied_Amount_Remittance_1 r - Resubmitted_Amount2 r)
       + Resubmission_Denied_Amount_Remittance_2 r)"

definition Total_Pending_Amount :: "claim \<Rightarrow> rat" where
  "Total_Pending_Amount r =
     round2 (Submitted_Amount r - (Total_Paid_Amount r + Total_Denied_Amount r))"

subsection \<open>The uploaded table\<close>

text \<open>
  A table is its header and its rows. A row shorter than the header reads as blank
  beyond its end, as the readers of pandas fill it; a label is looked up at its first
  position in the header.
\<close>

record frame =
  columns :: "string list"
  rows :: "cell list list"

definition cell_at :: "cell list \<Rightarrow> nat \<Rightarrow> cell" where
  "cell_at r i = (if i < length r then r ! i else Blank)"

definition column_position :: "string list \<Rightarrow> string \<Rightarrow> nat" where
  "column_position hdr name = length (takeWhile (\<lambda>c. c \<noteq> name) hdr)"

definition getitem :: "frame \<Rightarrow> string \<Rightarrow> cell list \<Rightarrow> cell" where
  "getitem df name r = cell_at r (column_position (columns df) name)"

subsection \<open>Validation (lines 20 to 25) and the header clean-up (line 28)\<close>

datatype error =
    MissingRequiredColumns "string list"
  | ErrorProcessingFile string

definition required_cols :: "string list" where
  "required_cols = [''Remittance_Date'', ''Payer_Name'', ''Paid_Amount'']"

definition missing_cols :: "frame \<Rightarrow> string list" where
  "missing_cols df = [col \<leftarrow> required_cols. col \<notin> set (columns df)]"

text \<open>
  \<open>str.strip\<close> removes the white space of Python at both ends. A character of a
  label is read as a code point below 256.
\<close>

definition isspace :: "char \<Rightarrow> bool" where
  "isspace c =
     (let n = (of_char c :: nat)
      in (9 \<le> n \<and> n \<le> 13) \<or> (28 \<le> n \<and> n \<le> 32) \<or> n = 133 \<or> n = 160)"

definition strip :: "string \<Rightarrow> string" where
  "strip s = rev (dropWhile isspace (rev (dropWhile isspace s)))"

definition strip_columns :: "frame \<Rightarrow> frame" where
  "strip_columns df = df\<lparr>columns := map strip (columns df)\<rparr>"

subsection \<open>Coercion and the date filter (lines 31 to 39)\<close>

definition amount_cols :: "string list" where
  "amount_cols =
     [''Paid_Amount'', ''Resubmission_Paid_Amount_1'', ''Resubmission_Paid_Amount2'',
      ''Submitted_Amount'', ''Resubmitted_Amount_1'', ''Resubmitted_Amount2'',
      ''Denied_Amount'', ''Resubmission_Denied_Amount_Remittance_1'',
      ''Resubmission_Denied_Amount_Remittance_2'']"

text \<open>
  The columns the script selects by label. A label the header lacks raises a KeyError;
  a label the header carries twice selects a sub-table, on which the Series operations
  that follow raise. Both end in the handler of line 221.
\<close>

definition used_cols :: "string list" where
  "used_cols = amount_cols @ [''Remittance_Date'', ''Payer_Name'']"

definition unusable_cols :: "frame \<Rightarrow> string list" where
  "unusable_cols df = [c \<leftarrow> used_cols. count_list (columns df) c \<noteq> 1]"

text \<open>\<open>fillna(0)\<close> after \<open>to_numeric(errors='coerce')\<close>.\<close>

definition fillna0 :: "rat option \<Rightarrow> rat" where
  "fillna0 v = (case v of None \<Rightarrow> 0 | Some x \<Rightarrow> x)"

definition typed_row ::
  "(cell \<Rightarrow> rat option) \<Rightarrow> frame \<Rightarrow> nat \<Rightarrow> cell list \<Rightarrow> timestamp \<Rightarrow> claim" where
  "typed_row to_numeric df i r d =
     \<lparr>row_label = i,
      Remittance_Date = d,
      Payer_Name = getitem df ''Payer_Name'' r,
      Paid_Amount = fillna0 (to_numeric (getitem df ''Paid_Amount'' r)),
      Resubmission_Paid_Amount_1 =
        fillna0 (to_numeric (getitem df ''Resubmission_Paid_Amount_1'' r)),
      Resubmission_Paid_Amount2 =
        fillna0 (to_numeric (getitem df ''Resubmission_Paid_Amount2'' r)),
      Submitted_Amount = fillna0 (to_numeric (getitem df ''Submitted_Amount'' r)),
      Resubmitted_Amount_1 = fillna0 (to_numeric (getitem df ''Resubmitted_Amount_1'' r)),
      Resubmitted_Amount2 = fillna0 (to_numeric (getitem df ''Resubmitted_Amount2'' r)),
      Denied_Amount = fillna0 (to_numeric (getitem df ''Denied_Amount'' r)),
      Resubmission_Denied_Amount_Remittance_1 =
        fillna0 (to_numeric (getitem df ''Resubmission_Denied_Amount_Remittance_1'' r)),
      Resubmission_Denied_Amount_Remittance_2 =
        fillna0 (to_numeric (getitem df ''Resubmission_Denied_Amount_Remittance_2'' r))\<rparr>"

text \<open>
  The two parsers of pandas are parameters: \<open>to_numeric\<close> reads one cell, None being
  NaN; \<open>to_datetime\<close> reads one cell of a column it has seen whole (it may infer the
  format from the column), None being NaT.
\<close>

definition date_column :: "frame \<Rightarrow> cell list" where
  "date_column df = map (getitem df ''Remittance_Date'') (rows df)"

definition parsed_date ::
  "(cell list \<Rightarrow> cell \<Rightarrow> timestamp option) \<Rightarrow> frame \<Rightarrow> cell list \<Rightarrow> timestamp option" where
  "parsed_date to_datetime df r = to_datetime (date_column df) (getitem df ''Remittance_Date'' r)"

definition dropna_rows ::
  "(cell \<Rightarrow> rat option) \<Rightarrow> (cell list \<Rightarrow> cell \<Rightarrow> timestamp option) \<Rightarrow> frame \<Rightarrow> claim list" where
  "dropna_rows to_numeric to_datetime df =
     List.map_filter
       (\<lambda>(i, r). map_option (typed_row to_numeric df i r) (parsed_date to_datetime df r))
       (enumerate 0 (rows df))"

definition clean ::
  "(cell \<Rightarrow> rat option) \<Rightarrow> (cell list \<Rightarrow> cell \<Rightarrow> timestamp option) \<Rightarrow> frame
     \<Rightarrow> error + claim list" where
  "clean to_numeric to_datetime df =
     (case unusable_cols df of
        c # _ \<Rightarrow> Inl (ErrorProcessingFile c)
      | [] \<Rightarrow> Inr (dropna_rows to_numeric to_datetime df))"

subsection \<open>Filters (lines 63 to 71)\<close>

text \<open>
  The year selection mixes the text "ALL" with the years offered; the payer selection
  holds payer cells, among which the text "ALL" is the wildcard.
\<close>

datatype year_choice = Choice_ALL | Choice_Year int

definition unique :: "'a list \<Rightarrow> 'a list" where
  "unique xs = rev (remdups (rev xs))"

definition effective_year :: "claim list \<Rightarrow> year_choice list \<Rightarrow> int list" where
  "effective_year df selected_year =
     (if Choice_ALL \<in> set selected_year then unique (map Remittance_Year df)
      else List.map_filter (\<lambda>y. case y of Choice_ALL \<Rightarrow> None | Choice_Year n \<Rightarrow> Some n) selected_year)"

definition effective_insurance :: "claim list \<Rightarrow> cell list \<Rightarrow> cell list" where
  "effective_insurance df selected_insurance =
     (if Text ''ALL'' \<in> set selected_insurance then unique (map Payer_Name df)
      else [i \<leftarrow> selected_insurance. i \<noteq> Text ''ALL''])"

definition filtered_df :: "claim list \<Rightarrow> year_choice list \<Rightarrow> cell list \<Rightarrow> claim list" where
  "filtered_df df selected_year selected_insurance =
     [r \<leftarrow> df. Remittance_Year r \<in> set (effective_year df selected_year)
              \<and> Payer_Name r \<in> set (effective_insurance df selected_insurance)]"

subsection \<open>Grouped tables (lines 74 to 84)\<close>

text \<open>
  \<open>groupby\<close> drops the rows with a NaN among their keys, sorts the keys that remain and
  applies the aggregate to the rows of each key.
\<close>

definition groupby_agg ::
  "('r \<Rightarrow> 'k::linorder option) \<Rightarrow> ('r list \<Rightarrow> 'v) \<Rightarrow> 'r list \<Rightarrow> ('k \<times> 'v) list" where
  "groupby_agg key agg rs =
     map (\<lambda>k. (k, agg [r \<leftarrow> rs. key r = Some k])) (sort (remdups (List.map_filter key rs)))"

definition col_sum :: "(claim \<Rightarrow> rat) \<Rightarrow> claim list \<Rightarrow> rat" where
  "col_sum col rs = sum_list (map col rs)"

definition year_payer_month :: "claim \<Rightarrow> (int \<times> string \<times> string) option" where
  "year_payer_month r =
     (case Payer_Name r of
        Blank \<Rightarrow> None
      | Text p \<Rightarrow> Some (Remittance_Year r, p, Remittance_Month r))"

definition year_payer :: "claim \<Rightarrow> (int \<times> string) option" where
  "year_payer r =
     (case Payer_Name r of Blank \<Rightarrow> None | Text p \<Rightarrow> Some (Remittance_Year r, p))"

definition month_order :: "string list" where
  "month_order =
     [''Jan'', ''Feb'', ''Mar'', ''Apr'', ''May'', ''Jun'',
      ''Jul'', ''Aug'', ''Sep'', ''Oct'', ''Nov'', ''Dec'']"

text \<open>
  A Series keyed by (year, payer, month) is unstacked on its last level: one row per
  (year, payer), one column per month that occurs, both sorted.
\<close>

record pivot =
  pv_index :: "(int \<times> string) list"
  pv_columns :: "string list"
  pv_values :: "rat list list"

definition unstack :: "rat \<Rightarrow> ((int \<times> string \<times> string) \<times> rat) list \<Rightarrow> pivot" where
  "unstack fill_value s =
     (let idx = sort (remdups (map (\<lambda>((y, p, m), v). (y, p)) s));
          cols = sort (remdups (map (\<lambda>((y, p, m), v). m) s))
      in \<lparr>pv_index = idx,
          pv_columns = cols,
          pv_values =
            map (\<lambda>(y, p).
                  map (\<lambda>m. case map_of s (y, p, m) of None \<Rightarrow> fill_value | Some v \<Rightarrow> v) cols)
              idx\<rparr>)"

definition reindex_columns :: "string list \<Rightarrow> rat \<Rightarrow> pivot \<Rightarrow> pivot" where
  "reindex_columns labels fill_value t =
     \<lparr>pv_index = pv_index t,
      pv_columns = labels,
      pv_values =
        map (\<lambda>row.
              map (\<lambda>l. case map_of (zip (pv_columns t) row) l of
                         None \<Rightarrow> fill_value
                       | Some v \<Rightarrow> v)
                labels)
          (pv_values t)\<rparr>"

record paid_table =
  pt_columns :: "string list"
  pt_rows :: "(int \<times> string \<times> rat list) list"

definition reset_index :: "pivot \<Rightarrow> paid_table" where
  "reset_index t =
     \<lparr>pt_columns = [''Remittance_Year'', ''Payer_Name''] @ pv_columns t,
      pt_rows = map (\<lambda>((y, p), vs). (y, p, vs)) (zip (pv_index t) (pv_values t))\<rparr>"

text \<open>
  \<open>sort_values(by='Remittance_Year')\<close>. The rows arrive sorted by (year, payer); the
  model sorts by insertion, which keeps rows of one year in the order they arrive. The
  default sort of pandas does not promise that order, and no statement below rests on it.
\<close>

definition sort_values :: "paid_table \<Rightarrow> paid_table" where
  "sort_values t = t\<lparr>pt_rows := sort_key fst (pt_rows t)\<rparr>"

definition grouped_paid :: "claim list \<Rightarrow> paid_table" where
  "grouped_paid fdf =
     sort_values (reset_index (reindex_columns month_order 0
       (unstack 0 (groupby_agg year_payer_month (col_sum Total_Paid_Amount) fdf))))"

record summary =
  sm_columns :: "string list"
  sm_rows :: "(int \<times> string \<times> rat \<times> rat \<times> rat \<times> rat) list"

definition summary_table :: "claim list \<Rightarrow> summary" where
  "summary_table fdf =
     \<lparr>sm_columns =
        [''Remittance_Year'', ''Payer_Name'',
         ''Total_Submitted'', ''Total_Paid'', ''Total_Denied'', ''Total_Pending''],
      sm_rows =
        sort_key fst
          (map (\<lambda>((y, p), v). (y, p, v))
            (groupby_agg year_payer
              (\<lambda>g. (col_sum Total_Submitted_Amount g, col_sum Total_Paid_Amount g,
                    col_sum Total_Denied_Amount g, col_sum Total_Pending_Amount g))
              fdf))\<rparr>"

subsection \<open>The run of the script up to the tables\<close>

record report =
  cleaned :: "claim list"
  filtered :: "claim list"
  paid_per_month :: paid_table
  summary_sheet :: summary

definition build_report :: "claim list \<Rightarrow> year_choice list \<Rightarrow> cell list \<Rightarrow> report" where
  "build_report cdf selected_year selected_insurance =
     (let fdf = filtered_df cdf selected_year selected_insurance
      in \<lparr>cleaned = cdf, filtered = fdf,
          paid_per_month = grouped_paid fdf,
          summary_sheet = summary_table fdf\<rparr>)"

definition pipeline ::
  "(cell \<Rightarrow> rat option) \<Rightarrow> (cell list \<Rightarrow> cell \<Rightarrow> timestamp option) \<Rightarrow> frame
     \<Rightarrow> year_choice list \<Rightarrow> cell list \<Rightarrow> error + report" where
  "pipeline to_numeric to_datetime df selected_year selected_insurance =
     (case missing_cols df of
        c # cs \<Rightarrow> Inl (MissingRequiredColumns (c # cs))
      | [] \<Rightarrow>
          (case clean to_numeric to_datetime (strip_columns df) of
             Inl e \<Rightarrow> Inl e
           | Inr cdf \<Rightarrow> Inr (build_report cdf selected_year selected_insurance)))"

subsection \<open>Export (lines 208 to 219)\<close>

text \<open>
  The file system maps a path to the bytes stored there. Writing the workbook either
  completes or raises, leaving at the path whatever it got to; handing the bytes to the
  download button either returns or raises. An exception leaves the \<open>try\<close> body at once
  for the handler of line 221.
\<close>

datatype 'b write_outcome = Written 'b | WriteRaised "'b option"

definition output_file :: string where
  "output_file = ''Insurance_Claims_Report.xlsx''"

definition export_report ::
  "'b write_outcome \<Rightarrow> bool \<Rightarrow> (string \<rightharpoonup> 'b) \<Rightarrow> (string \<rightharpoonup> 'b) \<times> (error + 'b)" where
  "export_report written handed_over fs =
     (case written of
        WriteRaised left \<Rightarrow> (fs(output_file := left), Inl (ErrorProcessingFile ''ExcelWriter''))
      | Written b \<Rightarrow>
          (let fs1 = fs(output_file \<mapsto> b)
           in if handed_over then (fs1(output_file := None), Inr b)
              else (fs1, Inl (ErrorProcessingFile ''download_button''))))"

subsection \<open>Vocabulary of the statements\<close>


definition nonneg_amounts :: "claim \<Rightarrow> bool" where
  "nonneg_amounts r \<longleftrightarrow>
     0 \<le> Paid_Amount r \<and> 0 \<le> Resubmission_Paid_Amount_1 r
     \<and> 0 \<le> Resubmission_Paid_Amount2 r \<and> 0 \<le> Submitted_Amount r
     \<and> 0 \<le> Resubmitted_Amount_1 r \<and> 0 \<le> Resubmitted_Amount2 r
     \<and> 0 \<le> Denied_Amount r \<and> 0 \<le> Resubmission_Denied_Amount_Remittance_1 r
     \<and> 0 \<le> Resubmission_Denied_Amount_Remittance_2 r"

subsection \<open>Example inputs\<close>

definition example_ts :: timestamp where
  "example_ts = \<lparr>ts_year = 2021, ts_month = Mar, ts_day = 15\<rparr>"


text \<open>A claim resubmitted for more than was denied, and one paid above its amount.\<close>

definition over_resubmitted_claim :: claim where
  "over_resubmitted_claim =
     \<lparr>row_label = 0, Remittance_Date = example_ts, Payer_Name = Text ''Acme'',
      Paid_Amount = 0, Resubmission_Paid_Amount_1 = 0, Resubmission_Paid_Amount2 = 0,
      Submitted_Amount = 100, Resubmitted_Amount_1 = 80, Resubmitted_Amount2 = 0,
      Denied_Amount = 50, Resubmission_Denied_Amount_Remittance_1 = 0,
      Resubmission_Denied_Amount_Remittance_2 = 0\<rparr>"

definition overpaid_claim :: claim where
  "overpaid_claim =
     \<lparr>row_label = 0, Remittance_Date = example_ts, Payer_Name = Text ''Acme'',
      Paid_Amount = 120, Resubmission_Paid_Amount_1 = 0, Resubmission_Paid_Amount2 = 0,
      Submitted_Amount = 100, Resubmitted_Amount_1 = 0, Resubmitted_Amount2 = 0,
      Denied_Amount = 0, Resubmission_Denied_Amount_Remittance_1 = 0,
      Resubmission_Denied_Amount_Remittance_2 = 0\<rparr>"

text \<open>
  Stand-ins for the two parsers, defined on the cells of the example tables only, and a
  table of four rows: the row of the specification's example, a row with a date that
  does not parse, a row with the paid amount "abc", and a second row of the first payer.
  One header cell carries a trailing blank.
\<close>

definition example_to_numeric :: "cell \<Rightarrow> rat option" where
  "example_to_numeric c =
     (if c = Text ''100'' then Some 100
      else if c = Text ''80'' then Some 80
      else if c = Text ''20'' then Some 20
      else if c = Text ''12.5'' then Some (25 / 2)
      else None)"

definition example_to_datetime :: "cell list \<Rightarrow> cell \<Rightarrow> timestamp option" where
  "example_to_datetime col c =
     (if c = Text ''2021-03-15'' then Some \<lparr>ts_year = 2021, ts_month = Mar, ts_day = 15\<rparr>
      else if c = Text ''2020-11-02'' then Some \<lparr>ts_year = 2020, ts_month = Nov, ts_day = 2\<rparr>
      else if c = Text ''2021-07-01'' then Some \<lparr>ts_year = 2021, ts_month = Jul, ts_day = 1\<rparr>
      else None)"

definition example_header :: "string list" where
  "example_header =
     [''Remittance_Date'', ''Payer_Name'', ''Paid_Amount'', ''Resubmission_Paid_Amount_1 '',
      ''Resubmission_Paid_Amount2'', ''Submitted_Amount'', ''Resubmitted_Amount_1'',
      ''Resubmitted_Amount2'', ''Denied_Amount'', ''Resubmission_Denied_Amount_Remittance_1'',
      ''Resubmission_Denied_Amount_Remittance_2'']"

definition spec_example_row :: "cell list" where
  "spec_example_row =
     [Text ''2021-03-15'', Text ''Acme'', Text ''80'', Blank, Blank, Text ''100'',
      Blank, Blank, Text ''20'', Blank, Blank]"

definition bad_date_row :: "cell list" where
  "bad_date_row =
     [Text ''not a date'', Text ''Acme'', Text ''80'', Blank, Blank, Text ''100'',
      Blank, Blank, Text ''20'', Blank, Blank]"

definition bad_amount_row :: "cell list" where
  "bad_amount_row =
     [Text ''2020-11-02'', Text ''Beta'', Text ''abc'', Blank, Blank, Text ''100'',
      Blank, Blank, Blank, Blank, Blank]"

definition july_row :: "cell list" where
  "july_row =
     [Text ''2021-07-01'', Text ''Acme'', Text ''12.5'', Blank, Blank, Text ''20'',
      Blank, Blank, Blank, Blank, Blank]"

definition example_frame :: frame where
  "example_frame =
     \<lparr>columns = example_header,
      rows = [spec_example_row, bad_date_row, bad_amount_row, july_row]\<rparr>"

text \<open>The same table with a blank in front of the first header cell.\<close>

definition padded_frame :: frame where
  "padded_frame = example_frame\<lparr>columns := ('' Remittance_Date'') # tl example_header\<rparr>"

text \<open>The three cleaned rows of the example table.\<close>

definition example_claims :: "claim list" where
  "example_claims =
     dropna_rows example_to_numeric example_to_datetime (strip_columns example_frame)"

text \<open>The nine amount columns of a cleaned row, by label.\<close>

definition amount_columns :: "claim \<Rightarrow> (string \<times> rat) list" where
  "amount_columns c =
     [(''Paid_Amount'', Paid_Amount c),
      (''Resubmission_Paid_Amount_1'', Resubmission_Paid_Amount_1 c),
      (''Resubmission_Paid_Amount2'', Resubmission_Paid_Amount2 c),
      (''Submitted_Amount'', Submitted_Amount c),
      (''Resubmitted_Amount_1'', Resubmitted_Amount_1 c),
      (''Resubmitted_Amount2'', Resubmitted_Amount2 c),
      (''Denied_Amount'', Denied_Amount c),
      (''Resubmission_Denied_Amount_Remittance_1'', Resubmission_Denied_Amount_Remittance_1 c),
      (''Resubmission_Denied_Amount_Remittance_2'', Resubmission_Denied_Amount_Remittance_2 c)]"

section \<open>Properties\<close>

subsection \<open>Rounding\<close>











subsection \<open>The derived totals\<close>





text \<open>
  C10: non-negative inputs do not keep the totals non-negative. A claim resubmitted for
  80 after a denial of 50 has a denied total of -30; a claim of 100 paid 120 has a
  pending total of -20.
\<close>

theorem totals_can_be_negative:
  "(\<exists>r. nonneg_amounts r \<and> Total_Denied_Amount r < 0)
   \<and> (\<exists>r. nonneg_amounts r \<and> Total_Pending_Amount r < 0)"
proof (intro conjI exI)
  show "nonneg_amounts over_resubmitted_claim"
    by (simp add: nonneg_amounts_def over_resubmitted_claim_def)
  show "Total_Denied_Amount over_resubmitted_claim < 0"
    by code_simp
  show "nonneg_amounts overpaid_claim"
    by (simp add: nonneg_amounts_def overpaid_claim_def)
  show "Total_Pending_Amount overpaid_claim < 0"
    by code_simp
qed

subsection \<open>Validation\<close>

text \<open>
  C3: the required columns are looked up in the header as uploaded; the header is
  stripped only afterwards (line 28). A table whose date column is headed
  " Remittance_Date" is rejected as lacking that column, although the stripped header
  has all three required columns and all eleven columns the script uses.
\<close>

theorem validator_runs_before_strip:
  "missing_cols padded_frame = [''Remittance_Date'']
   \<and> missing_cols (strip_columns padded_frame) = []
   \<and> unusable_cols (strip_columns padded_frame) = []
   \<and> pipeline to_numeric to_datetime padded_frame selected_year selected_insurance
       = Inl (MissingRequiredColumns [''Remittance_Date''])"
proof -
  have m: "missing_cols padded_frame = [''Remittance_Date'']"
    by code_simp
  have "missing_cols (strip_columns padded_frame) = []"
    by code_simp
  moreover have "unusable_cols (strip_columns padded_frame) = []"
    by code_simp
  ultimately show ?thesis
    by (simp add: m pipeline_def)
qed

subsection \<open>Filters\<close>

lemma set_unique: "set (unique xs) = set xs"
  by (simp add: unique_def)

lemma distinct_unique: "distinct (unique xs)"
  by (simp add: unique_def)

lemma explicit_years:
  "Choice_ALL \<notin> set sel \<Longrightarrow>
     map Choice_Year
       (List.map_filter (\<lambda>y. case y of Choice_ALL \<Rightarrow> None | Choice_Year n \<Rightarrow> Some n) sel) = sel"
proof (induction sel)
  case Nil
  show ?case by (simp add: List.map_filter_simps)
next
  case (Cons c sel)
  then show ?case by (cases c) (simp_all add: List.map_filter_simps)
qed

text \<open>
  C4: a selection with the wildcard resolves to the distinct values of the column,
  whatever else is selected with it; a selection without the wildcard resolves to
  itself. The same holds for years and for payers.
\<close>

theorem filter_resolver:
  "(Choice_ALL \<in> set selected_year \<longrightarrow>
      effective_year df selected_year = effective_year df [Choice_ALL]
      \<and> set (effective_year df selected_year) = Remittance_Year ` set df
      \<and> distinct (effective_year df selected_year))
   \<and> (Choice_ALL \<notin> set selected_year \<longrightarrow>
      map Choice_Year (effective_year df selected_year) = selected_year)
   \<and> (Text ''ALL'' \<in> set selected_insurance \<longrightarrow>
      effective_insurance df selected_insurance = effective_insurance df [Text ''ALL'']
      \<and> set (effective_insurance df selected_insurance) = Payer_Name ` set df
      \<and> distinct (effective_insurance df selected_insurance))
   \<and> (Text ''ALL'' \<notin> set selected_insurance \<longrightarrow>
      effective_insurance df selected_insurance = selected_insurance)
   \<and> effective_year df [Choice_ALL, Choice_Year 2021] = effective_year df [Choice_ALL]"
proof (intro conjI impI)
  assume "Choice_ALL \<notin> set selected_year"
  then show "map Choice_Year (effective_year df selected_year) = selected_year"
    by (simp add: effective_year_def explicit_years)
next
  assume "Text ''ALL'' \<notin> set selected_insurance"
  then have "[i \<leftarrow> selected_insurance. i \<noteq> Text ''ALL''] = selected_insurance"
    by (induction selected_insurance) auto
  then show "effective_insurance df selected_insurance = selected_insurance"
    using \<open>Text ''ALL'' \<notin> set selected_insurance\<close> by (simp add: effective_insurance_def)
qed (simp_all add: effective_year_def effective_insurance_def set_unique distinct_unique)

theorem filter_resolver_witness:
  "effective_year example_claims [Choice_ALL, Choice_Year 2021] = [2021, 2020]
   \<and> effective_year example_claims [Choice_Year 2021] = [2021]
   \<and> effective_insurance example_claims [Text ''Beta'', Text ''ALL'']
       = [Text ''Acme'', Text ''Beta'']
   \<and> effective_insurance example_claims [Text ''Beta''] = [Text ''Beta'']"
proof -
  have a: "effective_year example_claims [Choice_ALL] = [2021, 2020]"
    by code_simp
  have b: "effective_insurance example_claims [Text ''ALL''] = [Text ''Acme'', Text ''Beta'']"
    by code_simp
  have c: "map Choice_Year (effective_year example_claims [Choice_Year 2021])
      = [Choice_Year 2021]"
    using filter_resolver [of "[Choice_Year 2021]" example_claims "[Text ''Beta'']"]
    by simp
  show ?thesis
    using filter_resolver [of "[Choice_ALL, Choice_Year 2021]" example_claims
        "[Text ''Beta'', Text ''ALL'']"]
      filter_resolver [of "[Choice_Year 2021]" example_claims "[Text ''Beta'']"] a b c
    by auto
qed

subsection \<open>Export\<close>

text \<open>
  C9, as the specification states it: the exported file is removed on every run of the
  export step, also when the hand-off fails. When the download button raises, the file
  written before it is still there.
\<close>

theorem export_cleanup_counterexample:
  "fst (export_report (Written ''workbook'') False Map.empty) output_file
     = Some ''workbook''"
  by (simp add: export_report_def)

text \<open>
  C9, amended: when the workbook was written and the hand-off returned, the file is
  gone from the file system at the end of the step, whatever was stored there before,
  and the caller holds the bytes written.
\<close>

theorem export_cleanup_amended:
  "fst (export_report (Written b) True fs) output_file = None
   \<and> snd (export_report (Written b) True fs) = Inr b"
  by (simp add: export_report_def)

subsection \<open>Cleaning\<close>

lemma in_set_map_filter:
  "y \<in> set (List.map_filter f xs) \<longleftrightarrow> (\<exists>x \<in> set xs. f x = Some y)"
  by (induction xs) (auto split: option.splits)

lemma rows_strip_columns: "rows (strip_columns df) = rows df"
  by (simp add: strip_columns_def)

lemma in_dropna_rows:
  "c \<in> set (dropna_rows to_numeric to_datetime df) \<longleftrightarrow>
     (\<exists>i < length (rows df). \<exists>d. parsed_date to_datetime df (rows df ! i) = Some d
        \<and> c = typed_row to_numeric df i (rows df ! i) d)"
  (is "?L \<longleftrightarrow> ?R")
proof
  assume ?L
  then obtain i r where ir: "(i, r) \<in> set (enumerate 0 (rows df))"
    and c: "map_option (typed_row to_numeric df i r) (parsed_date to_datetime df r) = Some c"
    unfolding dropna_rows_def in_set_map_filter by auto
  from ir have "i < length (rows df)" "r = rows df ! i"
    by (simp_all add: in_set_enumerate_eq)
  with c show ?R
    by auto
next
  assume ?R
  then obtain i d where i: "i < length (rows df)"
    and d: "parsed_date to_datetime df (rows df ! i) = Some d"
    and c: "c = typed_row to_numeric df i (rows df ! i) d"
    by blast
  from i have "(i, rows df ! i) \<in> set (enumerate 0 (rows df))"
    by (simp add: in_set_enumerate_eq)
  moreover have "(case (i, rows df ! i) of (i, r) \<Rightarrow>
      map_option (typed_row to_numeric df i r) (parsed_date to_datetime df r)) = Some c"
    by (simp add: d c)
  ultimately show ?L
    unfolding dropna_rows_def in_set_map_filter by (rule bexI [rotated])
qed

lemma amount_columns_typed_row:
  "(name, v) \<in> set (amount_columns (typed_row to_numeric df i r d)) \<Longrightarrow>
     v = fillna0 (to_numeric (getitem df name r))"
  by (auto simp: amount_columns_def typed_row_def)

lemma build_report_simps:
  "cleaned (build_report cdf sy si) = cdf"
  "filtered (build_report cdf sy si) = filtered_df cdf sy si"
  "paid_per_month (build_report cdf sy si) = grouped_paid (filtered_df cdf sy si)"
  "summary_sheet (build_report cdf sy si) = summary_table (filtered_df cdf sy si)"
  by (simp_all add: build_report_def Let_def)

lemma pipeline_Inr:
  assumes "missing_cols df = []" and "unusable_cols (strip_columns df) = []"
  shows "pipeline to_numeric to_datetime df selected_year selected_insurance =
    Inr (build_report (dropna_rows to_numeric to_datetime (strip_columns df))
           selected_year selected_insurance)"
  using assms by (simp add: pipeline_def clean_def)

lemma pipeline_InrD:
  assumes "pipeline to_numeric to_datetime df selected_year selected_insurance = Inr rep"
  shows "rep = build_report (dropna_rows to_numeric to_datetime (strip_columns df))
           selected_year selected_insurance"
  using assms
  by (simp add: pipeline_def clean_def split: list.splits sum.splits)

text \<open>
  C8: when the header passes validation and carries each used column once, the run
  returns its tables, and every row whose date parses is kept; each of its nine amounts
  is 0 where the cell does not parse as a number and the parsed number where it does.
\<close>

theorem coercion_is_lenient:
  assumes "missing_cols df = []" and "unusable_cols (strip_columns df) = []"
    and "i < length (rows df)"
    and "parsed_date to_datetime (strip_columns df) (rows df ! i) = Some d"
  shows "\<exists>rep. pipeline to_numeric to_datetime df selected_year selected_insurance = Inr rep
     \<and> (\<exists>c \<in> set (cleaned rep). row_label c = i \<and> Remittance_Date c = d
          \<and> (\<forall>(name, v) \<in> set (amount_columns c).
                case to_numeric (getitem (strip_columns df) name (rows df ! i)) of
                  None \<Rightarrow> v = 0
                | Some x \<Rightarrow> v = x))"
proof -
  let ?df = "strip_columns df"
  let ?c = "typed_row to_numeric ?df i (rows df ! i) d"
  let ?rep = "build_report (dropna_rows to_numeric to_datetime ?df)
    selected_year selected_insurance"
  have p: "pipeline to_numeric to_datetime df selected_year selected_insurance = Inr ?rep"
    using assms(1,2) by (rule pipeline_Inr)
  have "\<exists>j < length (rows ?df). \<exists>e. parsed_date to_datetime ?df (rows ?df ! j) = Some e
      \<and> ?c = typed_row to_numeric ?df j (rows ?df ! j) e"
    using assms(3,4) unfolding rows_strip_columns by blast
  then have m: "?c \<in> set (cleaned ?rep)"
    unfolding build_report_simps in_dropna_rows .
  have l: "row_label ?c = i" and t: "Remittance_Date ?c = d"
    by (simp_all add: typed_row_def)
  have a: "\<forall>(name, v) \<in> set (amount_columns ?c).
      case to_numeric (getitem ?df name (rows df ! i)) of None \<Rightarrow> v = 0 | Some x \<Rightarrow> v = x"
  proof (clarify)
    fix name v
    assume "(name, v) \<in> set (amount_columns ?c)"
    then have "v = fillna0 (to_numeric (getitem ?df name (rows df ! i)))"
      by (rule amount_columns_typed_row)
    then show "case to_numeric (getitem ?df name (rows df ! i)) of
        None \<Rightarrow> v = 0 | Some x \<Rightarrow> v = x"
      by (simp add: fillna0_def split: option.splits)
  qed
  from m l t a have "\<exists>c \<in> set (cleaned ?rep). row_label c = i \<and> Remittance_Date c = d
      \<and> (\<forall>(name, v) \<in> set (amount_columns c).
            case to_numeric (getitem ?df name (rows df ! i)) of
              None \<Rightarrow> v = 0
            | Some x \<Rightarrow> v = x)"
    by (intro bexI [of _ ?c] conjI)
  with p show ?thesis
    by (intro exI [of _ ?rep] conjI)
qed

theorem coercion_is_lenient_witness:
  "\<exists>rep. pipeline example_to_numeric example_to_datetime example_frame
       [Choice_ALL] [Text ''ALL''] = Inr rep
     \<and> (\<exists>c \<in> set (cleaned rep). row_label c = 2 \<and> Paid_Amount c = 0)"
proof -
  have h1: "missing_cols example_frame = []"
    by code_simp
  have h2: "unusable_cols (strip_columns example_frame) = []"
    by code_simp
  have h3: "2 < length (rows example_frame)"
    by (simp add: example_frame_def)
  have h4: "parsed_date example_to_datetime (strip_columns example_frame)
      (rows example_frame ! 2) = Some \<lparr>ts_year = 2020, ts_month = Nov, ts_day = 2\<rparr>"
    by code_simp
  have n: "example_to_numeric
      (getitem (strip_columns example_frame) ''Paid_Amount'' (rows example_frame ! 2)) = None"
    by code_simp
  from coercion_is_lenient [OF h1 h2 h3 h4, of example_to_numeric "[Choice_ALL]" "[Text ''ALL'']"]
  obtain rep where
    r: "pipeline example_to_numeric example_to_datetime example_frame
       [Choice_ALL] [Text ''ALL''] = Inr rep"
    and e: "\<exists>c \<in> set (cleaned rep). row_label c = 2
      \<and> Remittance_Date c = \<lparr>ts_year = 2020, ts_month = Nov, ts_day = 2\<rparr>
      \<and> (\<forall>(name, v) \<in> set (amount_columns c).
        case example_to_numeric
            (getitem (strip_columns example_frame) name (rows example_frame ! 2)) of
          None \<Rightarrow> v = 0
        | Some x \<Rightarrow> v = x)"
    by (elim exE conjE)
  from e obtain c where c: "c \<in> set (cleaned rep)" "row_label c = 2"
    and a: "\<forall>(name, v) \<in> set (amount_columns c).
        case example_to_numeric
            (getitem (strip_columns example_frame) name (rows example_frame ! 2)) of
          None \<Rightarrow> v = 0
        | Some x \<Rightarrow> v = x"
    by (elim bexE conjE)
  have "(''Paid_Amount'', Paid_Amount c) \<in> set (amount_columns c)"
    unfolding amount_columns_def by simp
  from bspec [OF a this] have "case example_to_numeric
            (getitem (strip_columns example_frame) ''Paid_Amount'' (rows example_frame ! 2)) of
          None \<Rightarrow> Paid_Amount c = 0
        | Some x \<Rightarrow> Paid_Amount c = x"
    by simp
  then have "Paid_Amount c = 0"
    unfolding n by simp
  with r c show ?thesis
    by (intro exI [of _ rep] conjI bexI [of _ c])
qed

text \<open>
  C5: every cleaned row stems from an uploaded row whose date parsed, and carries that
  date; the label of a row whose date did not parse occurs neither among the cleaned
  nor among the filtered rows, and both tables are computed from the filtered rows.
\<close>

theorem unparsed_dates_are_dropped:
  assumes "pipeline to_numeric to_datetime df selected_year selected_insurance = Inr rep"
  shows "(\<forall>c \<in> set (cleaned rep).
            row_label c < length (rows df)
            \<and> parsed_date to_datetime (strip_columns df) (rows df ! row_label c)
                = Some (Remittance_Date c))
    \<and> (\<forall>i. parsed_date to_datetime (strip_columns df) (rows df ! i) = None \<longrightarrow>
            i \<notin> row_label ` set (cleaned rep) \<and> i \<notin> row_label ` set (filtered rep))
    \<and> set (filtered rep) \<subseteq> set (cleaned rep)
    \<and> paid_per_month rep = grouped_paid (filtered rep)
    \<and> summary_sheet rep = summary_table (filtered rep)"
proof -
  let ?df = "strip_columns df"
  note d = pipeline_InrD [OF assms]
  have a: "row_label c < length (rows df)
      \<and> parsed_date to_datetime ?df (rows df ! row_label c) = Some (Remittance_Date c)"
    if "c \<in> set (cleaned rep)" for c
  proof -
    from that obtain i e where "i < length (rows df)"
      "parsed_date to_datetime ?df (rows df ! i) = Some e"
      "c = typed_row to_numeric ?df i (rows df ! i) e"
      unfolding d build_report_simps in_dropna_rows rows_strip_columns by blast
    then show ?thesis
      by (simp add: typed_row_def)
  qed
  have s: "set (filtered rep) \<subseteq> set (cleaned rep)"
    unfolding d build_report_simps by (simp add: filtered_df_def)
  have n: "i \<notin> row_label ` set (cleaned rep) \<and> i \<notin> row_label ` set (filtered rep)"
    if "parsed_date to_datetime ?df (rows df ! i) = None" for i
  proof -
    have "i \<notin> row_label ` set (cleaned rep)"
    proof
      assume "i \<in> row_label ` set (cleaned rep)"
      then obtain c where "c \<in> set (cleaned rep)" "i = row_label c"
        by blast
      with a [of c] that show False
        by simp
    qed
    with s show ?thesis
      by blast
  qed
  have t: "paid_per_month rep = grouped_paid (filtered rep)"
    "summary_sheet rep = summary_table (filtered rep)"
    unfolding d build_report_simps by simp_all
  from a n s t show ?thesis
    by (intro conjI ballI allI impI) blast+
qed

theorem unparsed_dates_are_dropped_witness:
  "\<exists>rep. pipeline example_to_numeric example_to_datetime example_frame
       [Choice_ALL] [Text ''ALL''] = Inr rep
     \<and> 1 \<notin> row_label ` set (cleaned rep) \<and> 1 \<notin> row_label ` set (filtered rep)"
proof -
  have h1: "missing_cols example_frame = []"
    by code_simp
  have h2: "unusable_cols (strip_columns example_frame) = []"
    by code_simp
  have n: "parsed_date example_to_datetime (strip_columns example_frame)
      (rows example_frame ! 1) = None"
    by code_simp
  from pipeline_Inr [OF h1 h2] obtain rep where
    r: "pipeline example_to_numeric example_to_datetime example_frame
       [Choice_ALL] [Text ''ALL''] = Inr rep"
    by blast
  from unparsed_dates_are_dropped [OF r] have
    "\<forall>i. parsed_date example_to_datetime (strip_columns example_frame)
        (rows example_frame ! i) = None \<longrightarrow>
      i \<notin> row_label ` set (cleaned rep) \<and> i \<notin> row_label ` set (filtered rep)"
    by (elim conjE)
  with n have "1 \<notin> row_label ` set (cleaned rep) \<and> 1 \<notin> row_label ` set (filtered rep)"
    by blast
  with r show ?thesis
    by (intro exI [of _ rep] conjI) simp_all
qed

subsection \<open>Grouped tables\<close>

lemma groupby_agg_Nil: "groupby_agg key agg [] = []"
  by (simp add: groupby_agg_def)

lemma groupby_agg_keys:
  "set (map fst (groupby_agg key agg rs)) = {k. \<exists>r \<in> set rs. key r = Some k}"
  by (auto simp: groupby_agg_def in_set_map_filter image_iff)

lemma map_of_groupby_agg:
  "map_of (groupby_agg key agg rs) k =
     (if \<exists>r \<in> set rs. key r = Some k then Some (agg [r \<leftarrow> rs. key r = Some k]) else None)"
  by (simp add: groupby_agg_def map_of_map_restrict restrict_map_def in_set_map_filter)

lemma col_sum_Nil: "col_sum col [] = 0"
  by (simp add: col_sum_def)

lemma cell_value:
  "(case map_of (groupby_agg key (col_sum col) rs) k of None \<Rightarrow> 0 | Some v \<Rightarrow> v)
     = col_sum col [r \<leftarrow> rs. key r = Some k]"
proof (cases "\<exists>r \<in> set rs. key r = Some k")
  case True
  then show ?thesis
    by (simp add: map_of_groupby_agg)
next
  case False
  then have "[r \<leftarrow> rs. key r = Some k] = []"
    by (simp add: filter_empty_conv)
  with False show ?thesis
    by (simp add: map_of_groupby_agg col_sum_Nil)
qed


lemma unstack_index:
  "pv_index (unstack fill_value s) = sort (remdups (map (\<lambda>((y, p, m), v). (y, p)) s))"
  by (simp add: unstack_def Let_def)

lemma unstack_columns:
  "pv_columns (unstack fill_value s) = sort (remdups (map (\<lambda>((y, p, m), v). m) s))"
  by (simp add: unstack_def Let_def)

lemma unstack_values:
  "pv_values (unstack fill_value s) =
     map (\<lambda>(y, p).
           map (\<lambda>m. case map_of s (y, p, m) of None \<Rightarrow> fill_value | Some v \<Rightarrow> v)
             (pv_columns (unstack fill_value s)))
       (pv_index (unstack fill_value s))"
  by (simp add: unstack_def Let_def)


lemma set_columns_groupby:
  "set (pv_columns (unstack fill_value (groupby_agg year_payer_month agg fdf)))
     = {m. \<exists>y p. \<exists>r \<in> set fdf. year_payer_month r = Some (y, p, m)}"
proof -
  have "set (map (\<lambda>((y, p, m), v). m) (groupby_agg year_payer_month agg fdf))
      = (\<lambda>(y, p, m). m) ` set (map fst (groupby_agg year_payer_month agg fdf))"
    by (force simp: image_iff)
  also have "\<dots> = {m. \<exists>y p. \<exists>r \<in> set fdf. year_payer_month r = Some (y, p, m)}"
    unfolding groupby_agg_keys by (force simp: image_iff)
  finally show ?thesis
    by (simp add: unstack_columns)
qed

lemma paid_cells:
  "pv_values (reindex_columns labels 0
       (unstack 0 (groupby_agg year_payer_month (col_sum col) fdf)))
     = map (\<lambda>(y, p).
             map (\<lambda>m. col_sum col [r \<leftarrow> fdf. year_payer_month r = Some (y, p, m)]) labels)
         (pv_index (unstack 0 (groupby_agg year_payer_month (col_sum col) fdf)))"
proof -
  let ?s = "groupby_agg year_payer_month (col_sum col) fdf"
  let ?cols = "pv_columns (unstack 0 ?s)"
  let ?F = "\<lambda>k. col_sum col [r \<leftarrow> fdf. year_payer_month r = Some k]"
  have absent: "?F (y, p, l) = 0" if "l \<notin> set ?cols" for y p l
  proof -
    from that have "\<forall>r \<in> set fdf. year_payer_month r \<noteq> Some (y, p, l)"
      unfolding set_columns_groupby by blast
    then have "[r \<leftarrow> fdf. year_payer_month r = Some (y, p, l)] = []"
      by (simp add: filter_empty_conv)
    then show ?thesis
      by (simp add: col_sum_Nil)
  qed
  have cell: "(case map_of (zip ?cols (map (\<lambda>m. ?F (y, p, m)) ?cols)) l of
        None \<Rightarrow> 0 | Some v \<Rightarrow> v) = ?F (y, p, l)" for y p l
    by (simp add: map_of_zip_map absent)
  have "pv_values (unstack 0 ?s) = map (\<lambda>(y, p). map (\<lambda>m. ?F (y, p, m)) ?cols)
      (pv_index (unstack 0 ?s))"
    by (subst unstack_values) (simp add: cell_value)
  then show ?thesis
    by (simp add: reindex_columns_def cell case_prod_unfold)
qed

lemma paid_rows:
  "pt_rows (grouped_paid fdf)
     = sort_key fst
         (map (\<lambda>(y, p). (y, p,
                 map (\<lambda>m. col_sum Total_Paid_Amount
                        [r \<leftarrow> fdf. year_payer_month r = Some (y, p, m)]) month_order))
            (pv_index (unstack 0
               (groupby_agg year_payer_month (col_sum Total_Paid_Amount) fdf))))"
proof -
  have "pt_rows (grouped_paid fdf) = sort_key fst
      (map (\<lambda>((y, p), vs). (y, p, vs))
        (zip (pv_index (unstack 0
               (groupby_agg year_payer_month (col_sum Total_Paid_Amount) fdf)))
             (pv_values (reindex_columns month_order 0 (unstack 0
               (groupby_agg year_payer_month (col_sum Total_Paid_Amount) fdf))))))"
    by (simp add: grouped_paid_def sort_values_def reset_index_def reindex_columns_def)
  then show ?thesis
    unfolding paid_cells by (simp add: zip_map2 zip_same_conv_map case_prod_unfold comp_def)
qed

lemma paid_columns:
  "pt_columns (grouped_paid fdf) = [''Remittance_Year'', ''Payer_Name''] @ month_order"
  by (simp add: grouped_paid_def sort_values_def reset_index_def reindex_columns_def)

lemma paid_rows_Nil: "pt_rows (grouped_paid []) = []"
  by (simp add: paid_rows unstack_index groupby_agg_Nil)

lemma summary_columns:
  "sm_columns (summary_table fdf) =
     [''Remittance_Year'', ''Payer_Name'',
      ''Total_Submitted'', ''Total_Paid'', ''Total_Denied'', ''Total_Pending'']"
  by (simp add: summary_table_def)

lemma summary_rows_Nil: "sm_rows (summary_table []) = []"
  by (simp add: summary_table_def groupby_agg_Nil)






text \<open>
  C7: when cleaning succeeds and the filter leaves no row, the run still returns its
  report; both tables have no rows and the columns they have for any other input.
\<close>

theorem empty_filter_gives_empty_tables:
  assumes "missing_cols df = []"
    and "clean to_numeric to_datetime (strip_columns df) = Inr cdf"
    and "filtered_df cdf selected_year selected_insurance = []"
  shows "\<exists>rep. pipeline to_numeric to_datetime df selected_year selected_insurance = Inr rep
     \<and> filtered rep = []
     \<and> pt_rows (paid_per_month rep) = []
     \<and> pt_columns (paid_per_month rep) = pt_columns (grouped_paid fdf)
     \<and> sm_rows (summary_sheet rep) = []
     \<and> sm_columns (summary_sheet rep) = sm_columns (summary_table fdf)"
proof -
  let ?rep = "build_report cdf selected_year selected_insurance"
  have "pipeline to_numeric to_datetime df selected_year selected_insurance = Inr ?rep"
    using assms(1,2) by (simp add: pipeline_def)
  moreover have "filtered ?rep = []"
    by (simp add: build_report_simps assms(3))
  moreover have "pt_rows (paid_per_month ?rep) = []"
    by (simp add: build_report_simps assms(3) paid_rows_Nil)
  moreover have "pt_columns (paid_per_month ?rep) = pt_columns (grouped_paid fdf)"
    by (simp add: build_report_simps paid_columns)
  moreover have "sm_rows (summary_sheet ?rep) = []"
    by (simp add: build_report_simps assms(3) summary_rows_Nil)
  moreover have "sm_columns (summary_sheet ?rep) = sm_columns (summary_table fdf)"
    by (simp add: build_report_simps summary_columns)
  ultimately show ?thesis
    by (intro exI [of _ ?rep] conjI)
qed

theorem empty_filter_gives_empty_tables_witness:
  "\<exists>rep. pipeline example_to_numeric example_to_datetime example_frame
       [] [Text ''ALL''] = Inr rep
     \<and> filtered rep = []
     \<and> pt_rows (paid_per_month rep) = []
     \<and> pt_columns (paid_per_month rep) = pt_columns (grouped_paid example_claims)
     \<and> sm_rows (summary_sheet rep) = []
     \<and> sm_columns (summary_sheet rep) = sm_columns (summary_table example_claims)"
proof -
  have h1: "missing_cols example_frame = []"
    by code_simp
  have u: "unusable_cols (strip_columns example_frame) = []"
    by code_simp
  have h2: "clean example_to_numeric example_to_datetime (strip_columns example_frame)
      = Inr example_claims"
    by (simp add: clean_def u example_claims_def)
  have h3: "filtered_df example_claims [] [Text ''ALL''] = []"
    by (simp add: filtered_df_def effective_year_def)
  show ?thesis
    by (rule empty_filter_gives_empty_tables [OF h1 h2 h3])
qed

end
